theory Spec2Isabelle
  imports Complex_Main
begin

section \<open>Data model\<close>

text \<open>
  A Python float: a finite value, one of the two infinities, or NaN. Comparisons of
  floats with the integer literal \<open>0\<close> are exact in Python, so \<open>Finite x\<close> carries the
  real number the float denotes.
\<close>

datatype pyfloat = Finite real | PosInf | NegInf | NaN

text \<open>Python's \<open>x <= 0\<close> on a float: false for NaN and for \<open>+inf\<close>.\<close>

fun le_zero :: "pyfloat \<Rightarrow> bool" where
  "le_zero (Finite x) = (x \<le> 0)"
| "le_zero NegInf = True"
| "le_zero PosInf = False"
| "le_zero NaN = False"

text \<open>
  The dictionary \<open>self.params\<close>, with its five fixed keys. The keys \<open>'k'\<close> and \<open>'f'\<close>
  are the fields \<open>param_k\<close> and \<open>param_f\<close>.
\<close>

record solver_params =
  param_k :: pyfloat
  param_f :: pyfloat
  left_temp :: pyfloat
  right_temp :: pyfloat
  mesh_resolution :: int

text \<open>The exceptions a call can end with.\<close>

datatype error =
    ValueError string
  | AttributeError string
  | TypeError string
  | RuntimeError string

subsection \<open>The objects of the finite-element library\<close>

type_synonym point = "real \<times> real"

record Mesh =
  vertices :: "point list"
  cells :: "(nat \<times> nat \<times> nat) list"

record FunctionSpace =
  fs_mesh :: Mesh
  fs_family :: string
  fs_degree :: nat

text \<open>Variational forms are symbolic expressions, built without any numerical work.\<close>

datatype expr =
    TrialFunction FunctionSpace
  | TestFunction FunctionSpace
  | FloatValue pyfloat
  | Grad expr
  | Inner expr expr
  | Mult expr expr

datatype form = Integral_dx expr

text \<open>The two local \<open>SubDomain\<close> classes of \<open>_apply_boundary_conditions\<close>.\<close>

datatype subdomain = LeftBoundary | RightBoundary

record DirichletBC =
  bc_space :: FunctionSpace
  bc_value :: pyfloat
  bc_domain :: subdomain

record Function =
  fn_space :: FunctionSpace
  fn_vector :: "pyfloat list"

text \<open>
  The library itself (\<open>from dolfin import *\<close>) is not part of the program: it is a
  parameter of the model, one function per library call of the source, each of which may
  raise. \<open>lib_solve a L u bcs\<close> is \<open>solve(a == L, u, bcs)\<close>, returning the function
  that the call has filled in; \<open>lib_near\<close> is the library's tolerance comparison.
\<close>

record dolfin =
  lib_UnitSquareMesh :: "int \<Rightarrow> int \<Rightarrow> error + Mesh"
  lib_FunctionSpace :: "Mesh option \<Rightarrow> string \<Rightarrow> nat \<Rightarrow> error + FunctionSpace"
  lib_DirichletBC :: "FunctionSpace \<Rightarrow> pyfloat \<Rightarrow> subdomain \<Rightarrow> error + DirichletBC"
  lib_Function :: "FunctionSpace \<Rightarrow> error + Function"
  lib_solve :: "form \<Rightarrow> form \<Rightarrow> Function \<Rightarrow> DirichletBC list \<Rightarrow> error + Function"
  lib_near :: "real \<Rightarrow> real \<Rightarrow> bool"


subsection \<open>The solver instance\<close>

text \<open>
  The attributes of a \<open>HeatEquationSolver\<close>. \<open>mesh\<close> and \<open>solution\<close> start as Python's
  \<open>None\<close>; \<open>V\<close>, \<open>a\<close>, \<open>L\<close> and \<open>bcs\<close> do not exist until a stage assigns them, and
  reading one before that raises \<open>AttributeError\<close>.
\<close>

record solver =
  params :: solver_params
  mesh :: "Mesh option"
  solution :: "Function option"
  attr_V :: "FunctionSpace option"
  attr_a :: "form option"
  attr_L :: "form option"
  bcs :: "DirichletBC list option"

text \<open>A call on an instance ends with an exception or a value, and leaves an instance.\<close>

type_synonym 'a outcome = "(error + 'a) \<times> solver"

section \<open>The program\<close>

text \<open>\<open>__init__\<close>: stores the five arguments, unchecked.\<close>

definition HeatEquationSolver ::
  "pyfloat \<Rightarrow> pyfloat \<Rightarrow> pyfloat \<Rightarrow> pyfloat \<Rightarrow> int \<Rightarrow> solver" where
  "HeatEquationSolver kv fv lt rt res =
     \<lparr>params = \<lparr>param_k = kv, param_f = fv, left_temp = lt, right_temp = rt,
                 mesh_resolution = res\<rparr>,
      mesh = None, solution = None,
      attr_V = None, attr_a = None, attr_L = None, bcs = None\<rparr>"

definition validate_parameters :: "solver \<Rightarrow> unit outcome" where
  "validate_parameters s =
     (if le_zero (param_k (params s))
      then (Inl (ValueError ''Thermal conductivity must be positive''), s)
      else if mesh_resolution (params s) < 4
      then (Inl (ValueError ''Mesh resolution must be at least 4''), s)
      else (Inr (), s))"

definition create_mesh :: "dolfin \<Rightarrow> solver \<Rightarrow> unit outcome" where
  "create_mesh lib s =
     (case lib_UnitSquareMesh lib (mesh_resolution (params s)) (mesh_resolution (params s)) of
        Inl e \<Rightarrow> (Inl e, s)
      | Inr m \<Rightarrow> (Inr (), s\<lparr>mesh := Some m\<rparr>))"

definition setup_problem :: "dolfin \<Rightarrow> solver \<Rightarrow> unit outcome" where
  "setup_problem lib s =
     (case lib_FunctionSpace lib (mesh s) ''P'' 1 of
        Inl e \<Rightarrow> (Inl e, s)
      | Inr fs \<Rightarrow>
          (let s1 = s\<lparr>attr_V := Some fs\<rparr>;
               u = TrialFunction fs;
               v = TestFunction fs;
               a = Integral_dx (Mult (FloatValue (param_k (params s1))) (Inner (Grad u) (Grad v)));
               L = Integral_dx (Mult (FloatValue (param_f (params s1))) v)
           in (Inr (), s1\<lparr>attr_a := Some a, attr_L := Some L\<rparr>)))"

definition apply_boundary_conditions :: "dolfin \<Rightarrow> solver \<Rightarrow> unit outcome" where
  "apply_boundary_conditions lib s =
     (case attr_V s of
        None \<Rightarrow> (Inl (AttributeError ''V''), s)
      | Some fs \<Rightarrow>
          (case lib_DirichletBC lib fs (left_temp (params s)) LeftBoundary of
             Inl e \<Rightarrow> (Inl e, s)
           | Inr bl \<Rightarrow>
               (case lib_DirichletBC lib fs (right_temp (params s)) RightBoundary of
                  Inl e \<Rightarrow> (Inl e, s)
                | Inr br \<Rightarrow> (Inr (), s\<lparr>bcs := Some [bl, br]\<rparr>))))"

definition solve_system :: "dolfin \<Rightarrow> solver \<Rightarrow> unit outcome" where
  "solve_system lib s =
     (case attr_V s of
        None \<Rightarrow> (Inl (AttributeError ''V''), s)
      | Some fs \<Rightarrow>
          (case lib_Function lib fs of
             Inl e \<Rightarrow> (Inl e, s)
           | Inr u \<Rightarrow>
               (case attr_a s of
                  None \<Rightarrow> (Inl (AttributeError ''a''), s)
                | Some a \<Rightarrow>
                    (case attr_L s of
                       None \<Rightarrow> (Inl (AttributeError ''L''), s)
                     | Some L \<Rightarrow>
                         (case bcs s of
                            None \<Rightarrow> (Inl (AttributeError ''bcs''), s)
                          | Some bs \<Rightarrow>
                              (case lib_solve lib a L u bs of
                                 Inl e \<Rightarrow> (Inl e, s)
                               | Inr u' \<Rightarrow> (Inr (), s\<lparr>solution := Some u'\<rparr>)))))))"

text \<open>
  Statement sequencing: the next statement runs on the instance the previous one left,
  unless that one raised, in which case the exception and the instance pass through.
\<close>

definition and_then :: "unit outcome \<Rightarrow> (solver \<Rightarrow> 'a outcome) \<Rightarrow> 'a outcome" where
  "and_then r g = (case r of (Inl e, s) \<Rightarrow> (Inl e, s) | (Inr _, s) \<Rightarrow> g s)"

definition solve :: "dolfin \<Rightarrow> solver \<Rightarrow> (Mesh option \<times> Function option) outcome" where
  "solve lib s0 =
     and_then (validate_parameters s0) (\<lambda>s1.
     and_then (create_mesh lib s1) (\<lambda>s2.
     and_then (setup_problem lib s2) (\<lambda>s3.
     and_then (apply_boundary_conditions lib s3) (\<lambda>s4.
     and_then (solve_system lib s4) (\<lambda>s5.
     (Inr (mesh s5, solution s5), s5))))))"

section \<open>The stages as a state machine\<close>





section \<open>The mesh generator\<close>

text \<open>
  Modelled from the spec: the mesh generator behind \<open>UnitSquareMesh\<close>, which belongs to
  the finite-element library and is not in the source. For a resolution \<open>n\<close> it lays
  \<open>(n+1)\<close> rows of \<open>(n+1)\<close> vertices on a regular grid of the unit square, vertex
  \<open>row * (n+1) + col\<close> at \<open>(col/n, row/n)\<close>, and splits each of the \<open>n * n\<close> grid
  cells into two triangles along the same diagonal; it rejects \<open>n < 1\<close>.
\<close>

definition grid_vertices :: "nat \<Rightarrow> point list" where
  "grid_vertices n =
     concat (map (\<lambda>row. map (\<lambda>col. (real col / real n, real row / real n)) [0..<Suc n])
                 [0..<Suc n])"

definition cell_triangles :: "nat \<Rightarrow> nat \<Rightarrow> nat \<Rightarrow> (nat \<times> nat \<times> nat) list" where
  "cell_triangles n row col =
     (let v0 = row * Suc n + col; v1 = v0 + 1; v2 = v0 + Suc n; v3 = v1 + Suc n
      in [(v0, v1, v3), (v0, v2, v3)])"

definition grid_cells :: "nat \<Rightarrow> (nat \<times> nat \<times> nat) list" where
  "grid_cells n = concat (map (\<lambda>row. concat (map (cell_triangles n row) [0..<n])) [0..<n])"

definition mesh_generator :: "int \<Rightarrow> error + Mesh" where
  "mesh_generator n =
     (if n < 1 then Inl (ValueError ''Mesh resolution must be at least 1'')
      else Inr \<lparr>vertices = grid_vertices (nat n), cells = grid_cells (nat n)\<rparr>)"

section \<open>A stand-in library\<close>

text \<open>
  A library to run the program on: the mesh generator above, constructors that record
  their arguments, and a linear solve that hands back the function it was given. Its
  numbers mean nothing; it serves where a statement needs some library whose calls
  return. \<open>failing_dolfin\<close> is the same library with a linear solve that raises.
\<close>

definition stub_UnitSquareMesh :: "int \<Rightarrow> int \<Rightarrow> error + Mesh" where
  "stub_UnitSquareMesh nx ny =
     (if nx = ny then mesh_generator nx else Inl (RuntimeError ''unequal resolutions''))"

definition stub_FunctionSpace :: "Mesh option \<Rightarrow> string \<Rightarrow> nat \<Rightarrow> error + FunctionSpace" where
  "stub_FunctionSpace mo fam deg =
     (case mo of
        None \<Rightarrow> Inl (TypeError ''mesh'')
      | Some m \<Rightarrow> Inr \<lparr>fs_mesh = m, fs_family = fam, fs_degree = deg\<rparr>)"

definition stub_DirichletBC :: "FunctionSpace \<Rightarrow> pyfloat \<Rightarrow> subdomain \<Rightarrow> error + DirichletBC" where
  "stub_DirichletBC fs g sd = Inr \<lparr>bc_space = fs, bc_value = g, bc_domain = sd\<rparr>"

definition stub_Function :: "FunctionSpace \<Rightarrow> error + Function" where
  "stub_Function fs =
     Inr \<lparr>fn_space = fs, fn_vector = replicate (length (vertices (fs_mesh fs))) (Finite 0)\<rparr>"

definition stub_solve :: "form \<Rightarrow> form \<Rightarrow> Function \<Rightarrow> DirichletBC list \<Rightarrow> error + Function" where
  "stub_solve a L u bs = Inr u"

definition failing_solve :: "form \<Rightarrow> form \<Rightarrow> Function \<Rightarrow> DirichletBC list \<Rightarrow> error + Function" where
  "failing_solve a L u bs = Inl (RuntimeError ''linear solve failed'')"

definition stub_near :: "real \<Rightarrow> real \<Rightarrow> bool" where
  "stub_near x x0 = (x0 - 3 / 10 ^ 16 \<le> x \<and> x \<le> x0 + 3 / 10 ^ 16)"

definition stub_dolfin :: dolfin where
  "stub_dolfin =
     \<lparr>lib_UnitSquareMesh = stub_UnitSquareMesh, lib_FunctionSpace = stub_FunctionSpace,
      lib_DirichletBC = stub_DirichletBC, lib_Function = stub_Function,
      lib_solve = stub_solve, lib_near = stub_near\<rparr>"

definition failing_dolfin :: dolfin where
  "failing_dolfin = stub_dolfin\<lparr>lib_solve := failing_solve\<rparr>"

definition example_solver :: solver where
  "example_solver = HeatEquationSolver (Finite 1) (Finite 0) (Finite 100) (Finite 0) 8"

section \<open>Vertices on the two edges\<close>


text \<open>
  A mesh that does not fit the geometry, two triangles over \<open>[1/4, 3/4] \<times> [0, 1]\<close> with
  no vertex on either edge of the unit square, and an instance that is about to apply
  its boundary conditions on it.
\<close>

definition shifted_mesh :: Mesh where
  "shifted_mesh =
     \<lparr>vertices = [(1/4, 0), (3/4, 0), (1/4, 1), (3/4, 1)], cells = [(0, 1, 3), (0, 2, 3)]\<rparr>"

definition shifted_state :: solver where
  "shifted_state = snd (setup_problem stub_dolfin (example_solver\<lparr>mesh := Some shifted_mesh\<rparr>))"

section \<open>Parameter validation\<close>

lemma validate_parameters_invalid:
  "le_zero (param_k (params s)) \<or> mesh_resolution (params s) < 4 \<Longrightarrow>
   \<exists>msg. validate_parameters s = (Inl (ValueError msg), s)"
  by (auto simp: validate_parameters_def)

lemma solve_invalid:
  "validate_parameters s = (Inl e, s') \<Longrightarrow> solve lib s = (Inl e, s')"
  by (simp add: solve_def and_then_def)

text \<open>
  C5. Whenever the conductivity is \<open>\<le> 0\<close> or the resolution is below 4, whatever the
  other parameters, the state of the instance and the library, \<open>solve()\<close> ends with the
  \<open>ValueError\<close> of the validation (the spec's InvalidParameter) and leaves the instance
  exactly as it was: no library function has any influence on the outcome, so nothing has
  been computed, and no mesh or solution has been produced or stored.
\<close>

theorem solve_rejects_invalid_parameters:
  assumes "le_zero (param_k (params s)) \<or> mesh_resolution (params s) < 4"
  shows "(\<exists>msg. solve lib s = (Inl (ValueError msg), s)) \<and> solve lib' s = solve lib s"
proof -
  have "\<exists>msg. solve l s = (Inl (ValueError msg), s)" for l
    using validate_parameters_invalid [OF assms] solve_invalid by blast
  then show ?thesis
    by (metis validate_parameters_invalid [OF assms] solve_invalid)
qed

lemma fresh_instance:
  "params (HeatEquationSolver kv fv lt rt res) =
     \<lparr>param_k = kv, param_f = fv, left_temp = lt, right_temp = rt, mesh_resolution = res\<rparr>"
  "mesh (HeatEquationSolver kv fv lt rt res) = None"
  "solution (HeatEquationSolver kv fv lt rt res) = None"
  by (simp_all add: HeatEquationSolver_def)

text \<open>
  The scenario of the test suite: \<open>HeatEquationSolver(k=-1.0).solve()\<close>, the other
  arguments at their defaults.
\<close>

theorem solve_rejects_invalid_parameters_witness:
  "\<forall>lib. fst (solve lib (HeatEquationSolver (Finite (-1)) (Finite 0) (Finite 100) (Finite 0) 32))
            = Inl (ValueError ''Thermal conductivity must be positive'')
        \<and> mesh (snd (solve lib
              (HeatEquationSolver (Finite (-1)) (Finite 0) (Finite 100) (Finite 0) 32))) = None
        \<and> solution (snd (solve lib
              (HeatEquationSolver (Finite (-1)) (Finite 0) (Finite 100) (Finite 0) 32))) = None"
proof
  fix lib
  let ?s = "HeatEquationSolver (Finite (-1)) (Finite 0) (Finite 100) (Finite 0) 32"
  have h: "le_zero (param_k (params ?s)) \<or> mesh_resolution (params ?s) < 4"
    by (simp add: fresh_instance)
  from solve_rejects_invalid_parameters [OF h, of lib lib]
  obtain msg where m: "solve lib ?s = (Inl (ValueError msg), ?s)" by blast
  have "validate_parameters ?s
          = (Inl (ValueError ''Thermal conductivity must be positive''), ?s)"
    by (simp add: validate_parameters_def fresh_instance)
  from solve_invalid [OF this, of lib] m
  show "fst (solve lib ?s) = Inl (ValueError ''Thermal conductivity must be positive'')
        \<and> mesh (snd (solve lib ?s)) = None \<and> solution (snd (solve lib ?s)) = None"
    by (simp add: fresh_instance)
qed

text \<open>
  C10. Constructing a \<open>HeatEquationSolver\<close> never fails and checks nothing: whatever
  the five arguments are, the result is an instance that stores them as given, with no
  mesh and no solution. Validation is a stage of \<open>solve()\<close>; its verdict does not depend
  on the source term or on the boundary temperatures, and it accepts exactly when the
  conductivity is not \<open>\<le> 0\<close> and the resolution is at least 4. NaN and the infinities
  pass as source and temperatures, and a NaN conductivity passes as well, since
  \<open>nan <= 0\<close> is false.
\<close>

theorem construction_unchecked:
  "params (HeatEquationSolver kv fv lt rt res)
     = \<lparr>param_k = kv, param_f = fv, left_temp = lt, right_temp = rt, mesh_resolution = res\<rparr>
   \<and> mesh (HeatEquationSolver kv fv lt rt res) = None
   \<and> solution (HeatEquationSolver kv fv lt rt res) = None
   \<and> fst (validate_parameters (HeatEquationSolver kv fv lt rt res))
       = fst (validate_parameters (HeatEquationSolver kv fv' lt' rt' res))
   \<and> (fst (validate_parameters (HeatEquationSolver kv fv lt rt res)) = Inr ())
       = (\<not> le_zero kv \<and> 4 \<le> res)
   \<and> fst (validate_parameters (HeatEquationSolver (Finite 1) NaN PosInf NegInf 4)) = Inr ()
   \<and> fst (validate_parameters (HeatEquationSolver NaN fv lt rt 4)) = Inr ()"
  by (simp add: fresh_instance validate_parameters_def)

section \<open>The stages one by one\<close>


lemma and_then_Inr: "and_then (Inr x, s) g = g s"
  by (simp add: and_then_def)










lemma solve_system_ok:
  "solve_system lib s = (Inr (), s') \<Longrightarrow>
   \<exists>fs u a L bs u'. attr_V s = Some fs \<and> lib_Function lib fs = Inr u \<and> attr_a s = Some a
     \<and> attr_L s = Some L \<and> bcs s = Some bs \<and> lib_solve lib a L u bs = Inr u'
     \<and> s' = s\<lparr>solution := Some u'\<rparr>"
  by (auto simp: solve_system_def split: sum.splits option.splits)









lemma mesh_generator_ok:
  "1 \<le> n \<Longrightarrow> mesh_generator n = Inr \<lparr>vertices = grid_vertices (nat n), cells = grid_cells (nat n)\<rparr>"
  by (simp add: mesh_generator_def)

lemma stub_fields:
  "lib_UnitSquareMesh stub_dolfin = stub_UnitSquareMesh"
  "lib_FunctionSpace stub_dolfin = stub_FunctionSpace"
  "lib_DirichletBC stub_dolfin = stub_DirichletBC"
  "lib_Function stub_dolfin = stub_Function"
  "lib_solve stub_dolfin = stub_solve"
  "lib_near stub_dolfin = stub_near"
  "lib_UnitSquareMesh failing_dolfin = stub_UnitSquareMesh"
  "lib_FunctionSpace failing_dolfin = stub_FunctionSpace"
  "lib_DirichletBC failing_dolfin = stub_DirichletBC"
  "lib_Function failing_dolfin = stub_Function"
  "lib_solve failing_dolfin = failing_solve"
  "lib_near failing_dolfin = stub_near"
  by (simp_all add: stub_dolfin_def failing_dolfin_def)

lemma example_params:
  "params example_solver =
     \<lparr>param_k = Finite 1, param_f = Finite 0, left_temp = Finite 100, right_temp = Finite 0,
      mesh_resolution = 8\<rparr>"
  by (simp add: example_solver_def fresh_instance)

lemma example_validates: "validate_parameters example_solver = (Inr (), example_solver)"
  by (simp add: validate_parameters_def example_params)

lemma stub_create_mesh:
  "mesh_resolution (params s) = 8 \<Longrightarrow>
   create_mesh stub_dolfin s
     = (Inr (), s\<lparr>mesh := Some \<lparr>vertices = grid_vertices 8, cells = grid_cells 8\<rparr>\<rparr>)"
  "mesh_resolution (params s) = 8 \<Longrightarrow>
   create_mesh failing_dolfin s
     = (Inr (), s\<lparr>mesh := Some \<lparr>vertices = grid_vertices 8, cells = grid_cells 8\<rparr>\<rparr>)"
  by (simp_all add: create_mesh_def stub_fields stub_UnitSquareMesh_def mesh_generator_ok)

lemma stub_solve_example:
  "\<exists>u s'. solve stub_dolfin example_solver
      = (Inr (Some \<lparr>vertices = grid_vertices 8, cells = grid_cells 8\<rparr>, Some u), s')
      \<and> params s' = params example_solver"
  by (simp add: solve_def and_then_Inr example_validates stub_create_mesh example_params
      setup_problem_def apply_boundary_conditions_def solve_system_def stub_fields
      stub_FunctionSpace_def stub_DirichletBC_def stub_Function_def stub_solve_def Let_def)


lemma solve_unfold:
  "solve lib s =
     (if le_zero (param_k (params s))
      then (Inl (ValueError ''Thermal conductivity must be positive''), s)
      else if mesh_resolution (params s) < 4
      then (Inl (ValueError ''Mesh resolution must be at least 4''), s)
      else (case lib_UnitSquareMesh lib (mesh_resolution (params s)) (mesh_resolution (params s)) of
          Inl e \<Rightarrow> (Inl e, s)
        | Inr m \<Rightarrow>
           (case lib_FunctionSpace lib (Some m) ''P'' 1 of
              Inl e \<Rightarrow> (Inl e, s\<lparr>mesh := Some m\<rparr>)
            | Inr fs \<Rightarrow>
               (let a = Integral_dx (Mult (FloatValue (param_k (params s)))
                          (Inner (Grad (TrialFunction fs)) (Grad (TestFunction fs))));
                    L = Integral_dx (Mult (FloatValue (param_f (params s))) (TestFunction fs));
                    s3 = s\<lparr>mesh := Some m, attr_V := Some fs, attr_a := Some a, attr_L := Some L\<rparr>
                in (case lib_DirichletBC lib fs (left_temp (params s)) LeftBoundary of
                      Inl e \<Rightarrow> (Inl e, s3)
                    | Inr bl \<Rightarrow>
                       (case lib_DirichletBC lib fs (right_temp (params s)) RightBoundary of
                          Inl e \<Rightarrow> (Inl e, s3)
                        | Inr br \<Rightarrow>
                           (case lib_Function lib fs of
                              Inl e \<Rightarrow> (Inl e, s3\<lparr>bcs := Some [bl, br]\<rparr>)
                            | Inr u \<Rightarrow>
                               (case lib_solve lib a L u [bl, br] of
                                  Inl e \<Rightarrow> (Inl e, s3\<lparr>bcs := Some [bl, br]\<rparr>)
                                | Inr u' \<Rightarrow>
                                   (Inr (Some m, Some u'),
                                    s3\<lparr>bcs := Some [bl, br], solution := Some u'\<rparr>)))))))))"
  by (simp add: solve_def and_then_def validate_parameters_def create_mesh_def setup_problem_def
      apply_boundary_conditions_def solve_system_def Let_def split: sum.splits)



section \<open>Failure of a stage\<close>




section \<open>Order of the stages, and calling again\<close>




section \<open>Determinism\<close>



section \<open>Size of the mesh\<close>

lemma length_grid_vertices: "length (grid_vertices n) = Suc n * Suc n"
  by (simp add: grid_vertices_def length_concat o_def sum_list_triv)

lemma length_cell_triangles: "length (cell_triangles n row col) = 2"
  by (simp add: cell_triangles_def Let_def)

lemma length_grid_cells: "length (grid_cells n) = 2 * (n * n)"
  by (simp add: grid_cells_def length_concat o_def sum_list_triv length_cell_triangles)

lemma mesh_generator_size:
  assumes "1 \<le> n"
  shows "\<exists>m. mesh_generator n = Inr m \<and> int (length (vertices m)) = (n + 1)\<^sup>2
           \<and> int (length (cells m)) = 2 * n\<^sup>2"
proof -
  from assms have "int (nat n) = n" by simp
  then have "int (Suc (nat n) * Suc (nat n)) = (n + 1)\<^sup>2" "int (2 * (nat n * nat n)) = 2 * n\<^sup>2"
    by (simp_all add: power2_eq_square algebra_simps)
  with assms show ?thesis
    by (simp add: mesh_generator_ok length_grid_vertices length_grid_cells del: of_nat_mult of_nat_Suc)
qed

lemma solve_keeps_created_mesh:
  assumes "\<not> le_zero (param_k (params s))" "4 \<le> mesh_resolution (params s)"
    and "lib_UnitSquareMesh lib (mesh_resolution (params s)) (mesh_resolution (params s)) = Inr m"
  shows "mesh (snd (solve lib s)) = Some m"
    and "fst (solve lib s) = Inr (m', u) \<Longrightarrow> m' = Some m"
  using assms by (auto simp: solve_unfold Let_def split: sum.splits)

lemma solve_ok_valid:
  assumes "fst (solve lib s) = Inr r"
  shows "\<not> le_zero (param_k (params s)) \<and> 4 \<le> mesh_resolution (params s)"
  using assms by (auto simp: solve_unfold split: if_splits)

text \<open>
  C2. With the mesh generator in the place of \<open>UnitSquareMesh\<close>, and valid parameters
  of resolution \<open>n \<ge> 4\<close>, the mesh that \<open>solve()\<close> builds, stores and (when the later
  stages succeed) returns has exactly \<open>(n+1)\<^sup>2\<close> vertices and \<open>2 * n\<^sup>2\<close> triangles.
\<close>

theorem generated_mesh_size:
  assumes "\<forall>n. lib_UnitSquareMesh lib n n = mesh_generator n"
    and "\<not> le_zero (param_k (params s))" and "4 \<le> mesh_resolution (params s)"
  shows "\<exists>msh. mesh (snd (solve lib s)) = Some msh
           \<and> (\<forall>m u. fst (solve lib s) = Inr (m, u) \<longrightarrow> m = Some msh)
           \<and> int (length (vertices msh)) = (mesh_resolution (params s) + 1)\<^sup>2
           \<and> int (length (cells msh)) = 2 * (mesh_resolution (params s))\<^sup>2"
proof -
  from assms(3) have "1 \<le> mesh_resolution (params s)" by simp
  from mesh_generator_size [OF this] obtain msh where
    m: "mesh_generator (mesh_resolution (params s)) = Inr msh"
       "int (length (vertices msh)) = (mesh_resolution (params s) + 1)\<^sup>2"
       "int (length (cells msh)) = 2 * (mesh_resolution (params s))\<^sup>2" by blast
  with assms(1) have
    "lib_UnitSquareMesh lib (mesh_resolution (params s)) (mesh_resolution (params s)) = Inr msh"
    by simp
  from solve_keeps_created_mesh [OF assms(2,3) this] m(2,3) show ?thesis by blast
qed

text \<open>The scenario of the test suite: resolution 8 gives 81 vertices and 128 triangles.\<close>

theorem generated_mesh_size_witness:
  "\<exists>msh u. fst (solve stub_dolfin example_solver) = Inr (Some msh, Some u)
      \<and> length (vertices msh) = 81 \<and> length (cells msh) = 128"
proof -
  have l: "\<forall>n. lib_UnitSquareMesh stub_dolfin n n = mesh_generator n"
    by (simp add: stub_fields stub_UnitSquareMesh_def)
  have v: "\<not> le_zero (param_k (params example_solver))" "4 \<le> mesh_resolution (params example_solver)"
    by (simp_all add: example_params)
  from generated_mesh_size [OF l v] obtain msh where
    m: "\<forall>m u. fst (solve stub_dolfin example_solver) = Inr (m, u) \<longrightarrow> m = Some msh"
       "int (length (vertices msh)) = (mesh_resolution (params example_solver) + 1)\<^sup>2"
       "int (length (cells msh)) = 2 * (mesh_resolution (params example_solver))\<^sup>2" by blast
  from m(2,3) have "length (vertices msh) = 81" "length (cells msh) = 128"
    by (simp_all add: example_params)
  moreover from stub_solve_example m(1) obtain u where
    "fst (solve stub_dolfin example_solver) = Inr (Some msh, Some u)" by force
  ultimately show ?thesis by blast
qed

section \<open>Boundary conditions\<close>

lemma shifted_setup:
  "setup_problem stub_dolfin (example_solver\<lparr>mesh := Some shifted_mesh\<rparr>) = (Inr (), shifted_state)"
  by (simp add: shifted_state_def setup_problem_def stub_fields stub_FunctionSpace_def Let_def)














end
